theory Spec2Isabelle
  imports Complex_Main
begin

section \<open>Values, requests and payment records\<close>

text \<open>
  The repository holds three versions of the same Express server:
  \<^item> \<open>src/backend/server.js\<close> (called \<open>Server\<close> below),
  \<^item> the first file of \<open>src/unnamed/part_000\<close> (\<open>Variant1\<close>), whose capture and refund
    handlers have no status guard and whose create handler replaces the record,
  \<^item> the second file of \<open>src/unnamed/part_000\<close> (\<open>Variant2\<close>), which has no authentication
    and no inbound signature check.

  Each route is modelled as a function from the request and the store \<open>paymentsDb\<close> to
  the response and the new state. The readings a handler takes from outside
  (\<open>uuidv4()\<close>, \<open>new Date().toISOString()\<close>, \<open>crypto.randomBytes\<close>) are inputs of the
  step (record \<open>sys\<close>); the process environment, the HMAC primitive, the JSON serialiser
  and the validators of express-validator are parameters (record \<open>env\<close>).

  \<open>paymentsDb\<close> is a plain JavaScript object, so \<open>paymentsDb[paymentId]\<close> also finds the
  twelve properties that every object inherits from \<open>Object.prototype\<close>; the lookup below
  tells an own record, an inherited object and a missing key apart. A handler that
  writes onto an inherited object changes the built-in objects of the process; the model
  gives the answer of that request and then stops: the new state is \<open>Polluted\<close>, and no
  later request is modelled from it.

  Scope of the model: \<open>paymentId\<close> and \<open>status\<close> are JSON strings and \<open>callbackUrls\<close> is
  an object of strings, as section 6 of the specification documents them; every other
  body field is an arbitrary JSON value. The rate limiter, logging and static files are
  left out.
\<close>

datatype jsval =
  Undefined | Null | Bool bool | Num real | Str string | Arr "jsval list"
  | Dict "(string \<times> jsval) list"

fun truthy :: "jsval \<Rightarrow> bool" where
  "truthy Undefined = False"
| "truthy Null = False"
| "truthy (Bool b) = b"
| "truthy (Num r) = (r \<noteq> 0)"
| "truthy (Str s) = (s \<noteq> [])"
| "truthy (Arr xs) = True"
| "truthy (Dict kvs) = True"

text \<open>A string property that may be missing: \<open>!x\<close> is true for \<open>undefined\<close> and for \<open>''\<close>.\<close>

fun present :: "string option \<Rightarrow> bool" where
  "present None = False"
| "present (Some s) = (s \<noteq> [])"

record card =
  card_number :: jsval
  card_expiry :: jsval
  card_cvv :: jsval

record headers =
  x_api_key :: "string option"
  x_wix_signature :: "string option"
  x_signature :: "string option"

record body =
  body_paymentId :: string
  body_orderId :: jsval
  body_amount :: jsval
  body_currency :: jsval
  body_callbackUrls :: "(string \<rightharpoonup> string) option"
  body_cardDetails :: "card option"
  body_paymentMethod :: jsval
  body_reason :: jsval
  body_status :: string

record req =
  headers :: headers
  body :: body

record stored_card =
  last4 :: jsval
  expiry :: jsval

record payment =
  paymentId :: jsval
  id' :: jsval
  orderId :: jsval
  amount :: jsval
  currency :: jsval
  status :: string
  callbackUrls :: "(string \<rightharpoonup> string) option"
  createdAt :: string
  updatedAt :: jsval
  cardLast4 :: jsval
  cardDetails :: "stored_card option"
  capturedAmount :: jsval
  refundedAmount :: jsval
  paymentMethod :: jsval
  refundReason :: jsval
  cancelReason :: jsval

type_synonym paymentsDb = "string \<rightharpoonup> payment"

text \<open>The state after a request: the own properties of \<open>paymentsDb\<close>, or \<open>Polluted\<close> when
  the handler has written onto an object inherited from \<open>Object.prototype\<close> (or has
  replaced the prototype of \<open>paymentsDb\<close>).\<close>

datatype store_state = Clean paymentsDb | Polluted

datatype lookup = Absent | Own payment | Inherited

datatype json_body = ErrorBody string | ErrorsBody | Obj "(string \<times> jsval) list"

datatype response = Response nat json_body

text \<open>What \<open>generateSignature\<close> is applied to: the whole request body, or the object
  \<open>{ paymentId, status }\<close>.\<close>

datatype sigdata = WholeBody body | PaymentStatus string string

record sys =
  uuid_1 :: string
  uuid_2 :: string
  date_1 :: string
  date_2 :: string
  randomBytes_hex :: string

text \<open>\<open>uuid_1\<close> and \<open>uuid_2\<close> are the results of the handler's first and second call of
  \<open>uuidv4()\<close>; \<open>date_1\<close> is the clock reading the handler stores in the record, \<open>date_2\<close>
  the later reading of a handler that reads the clock again for the record or the
  response.\<close>

text \<open>The environment. \<open>notEmpty\<close>, \<open>isNumeric\<close>, \<open>isURL\<close>, \<open>isCreditCard\<close>,
  \<open>matches_expiry\<close> (\<open>matches(/^\d{2}\/\d{2}$/)\<close>) and \<open>isLength_3_4\<close>
  (\<open>isLength({ min: 3, max: 4 })\<close>) are the validators of express-validator, which is
  not part of the repository. \<open>builtin_text\<close> is the text that a template literal prints
  for the object inherited under a name of \<open>Object.prototype\<close>.\<close>

record env =
  API_KEY :: "string option"
  HMAC_SECRET :: "string option"
  PAYMENT_DOMAIN :: "string option"
  hmac_sha256_hex :: "string \<Rightarrow> string \<Rightarrow> string"
  JSON_stringify :: "sigdata \<Rightarrow> string"
  notEmpty :: "jsval \<Rightarrow> bool"
  isNumeric :: "jsval \<Rightarrow> bool"
  isURL :: "string \<Rightarrow> bool"
  isCreditCard :: "jsval \<Rightarrow> bool"
  matches_expiry :: "jsval \<Rightarrow> bool"
  isLength_3_4 :: "jsval \<Rightarrow> bool"
  builtin_text :: "string \<Rightarrow> string"

datatype variant = Server | Variant1 | Variant2

datatype route = Redirect | Create | Capture | Refund | Cancel | Callback

section \<open>Helpers shared by the three servers\<close>

text \<open>The own property names of \<open>Object.prototype\<close>. Each is truthy when read through
  a plain object: eleven built-in functions, and \<open>__proto__\<close>, whose getter gives
  \<open>Object.prototype\<close> itself.\<close>

definition inherited_names :: "string list" where
  "inherited_names =
     [''__proto__'', ''constructor'', ''__defineGetter__'', ''__defineSetter__'',
      ''hasOwnProperty'', ''__lookupGetter__'', ''__lookupSetter__'', ''isPrototypeOf'',
      ''propertyIsEnumerable'', ''toString'', ''valueOf'', ''toLocaleString'']"

text \<open>\<open>paymentsDb[paymentId]\<close>: an own record first, then the prototype.\<close>

definition paymentsDb_get :: "paymentsDb \<Rightarrow> string \<Rightarrow> lookup" where
  "paymentsDb_get db k =
     (case db k of
        Some p \<Rightarrow> Own p
      | None \<Rightarrow> if k \<in> set inherited_names then Inherited else Absent)"

text \<open>\<open>callbackUrls[status]\<close> on the stored object: an own URL first, then the prototype,
  whose objects a template literal prints as text.\<close>

definition callbackUrls_get :: "env \<Rightarrow> (string \<rightharpoonup> string) \<Rightarrow> string \<Rightarrow> string option" where
  "callbackUrls_get e urls k =
     (case urls k of
        Some u \<Rightarrow> Some u
      | None \<Rightarrow> if k \<in> set inherited_names then Some (builtin_text e k) else None)"

text \<open>Whether \<open>callbackUrls[status]\<close> is truthy: an own URL that is not empty, or an
  inherited object.\<close>

definition callbackUrls_truthy :: "(string \<rightharpoonup> string) \<Rightarrow> string \<Rightarrow> bool" where
  "callbackUrls_truthy urls k =
     (case urls k of Some u \<Rightarrow> u \<noteq> [] | None \<Rightarrow> k \<in> set inherited_names)"

text \<open>\<open>x.slice(-4)\<close>: the last four characters of a string, the last four elements of
  an array, the whole value when it is shorter. No other JSON value has a \<open>slice\<close>
  method: the call throws a \<open>TypeError\<close>, which is \<open>None\<close> here.\<close>

fun slice_last4 :: "jsval \<Rightarrow> jsval option" where
  "slice_last4 (Str s) = Some (Str (drop (length s - 4) s))"
| "slice_last4 (Arr xs) = Some (Arr (drop (length xs - 4) xs))"
| "slice_last4 _ = None"

text \<open>\<open>cardDetails.number.slice(-4)\<close>; a missing \<open>cardDetails\<close> throws as well.\<close>

definition card_tail :: "body \<Rightarrow> jsval option" where
  "card_tail b =
     (case body_cardDetails b of None \<Rightarrow> None | Some c \<Rightarrow> slice_last4 (card_number c))"

text \<open>A value inside a template literal: \<open>undefined\<close> prints as the word.\<close>

fun template :: "string option \<Rightarrow> string" where
  "template None = ''undefined''"
| "template (Some s) = s"

definition is_digit :: "char \<Rightarrow> bool" where
  "is_digit c = (c \<in> set ''0123456789'')"

definition url_ok :: "env \<Rightarrow> body \<Rightarrow> string \<Rightarrow> bool" where
  "url_ok e b k =
     (case body_callbackUrls b of
        None \<Rightarrow> False
      | Some m \<Rightarrow> (case m k of None \<Rightarrow> False | Some u \<Rightarrow> isURL e u))"

definition not_found :: response where
  "not_found = Response 404 (ErrorBody ''Payment not found'')"

definition unauthorized :: response where
  "unauthorized = Response 401 (ErrorBody ''Unauthorized'')"

definition internal_error :: response where
  "internal_error = Response 500 (ErrorBody ''Internal server error'')"

definition validation_failed :: response where
  "validation_failed = Response 400 ErrorsBody"

section \<open>src/backend/server.js\<close>

text \<open>\<open>generateSignature\<close>: \<open>None\<close> is the \<open>TypeError\<close> that \<open>crypto.createHmac\<close> throws when
  \<open>HMAC_SECRET\<close> is not set.\<close>

definition generateSignature :: "env \<Rightarrow> sigdata \<Rightarrow> string option" where
  "generateSignature e d =
     (case HMAC_SECRET e of
        None \<Rightarrow> None
      | Some k \<Rightarrow> Some (hmac_sha256_hex e k (JSON_stringify e d)))"

definition authenticate :: "env \<Rightarrow> req \<Rightarrow> bool" where
  "authenticate e r = (x_api_key (headers r) = API_KEY e)"

definition redirect_valid :: "env \<Rightarrow> body \<Rightarrow> bool" where
  "redirect_valid e b =
     (notEmpty e (body_orderId b) \<and> isNumeric e (body_amount b) \<and>
      url_ok e b ''success'' \<and> url_ok e b ''failure'' \<and> url_ok e b ''cancel'')"

definition new_payment :: "string \<Rightarrow> body \<Rightarrow> jsval \<Rightarrow> string \<Rightarrow> payment" where
  "new_payment pid b cur t =
     \<lparr> paymentId = Str pid, id' = Undefined, orderId = body_orderId b,
       amount = body_amount b, currency = cur, status = ''pending'',
       callbackUrls = body_callbackUrls b, createdAt = t, updatedAt = Undefined,
       cardLast4 = Undefined, cardDetails = None, capturedAmount = Undefined,
       refundedAmount = Undefined, paymentMethod = Undefined, refundReason = Undefined,
       cancelReason = Undefined \<rparr>"

text \<open>The generated key starts with \<open>pay_\<close>, so the assignment always makes or replaces
  an own property.\<close>

definition server_redirect :: "env \<Rightarrow> sys \<Rightarrow> req \<Rightarrow> paymentsDb \<Rightarrow> response \<times> store_state" where
  "server_redirect e s r db =
     (if \<not> authenticate e r then (unauthorized, Clean db)
      else if \<not> redirect_valid e (body r) then (validation_failed, Clean db)
      else
        let b = body r;
            pid = ''pay_'' @ uuid_1 s;
            cur = (if truthy (body_currency b) then body_currency b else Str ''USD'');
            db' = db(pid \<mapsto> new_payment pid b cur (date_1 s));
            redirectUrl = template (PAYMENT_DOMAIN e) @ ''/checkout?paymentId='' @ pid
                          @ ''&token='' @ randomBytes_hex s
        in (Response 200 (Obj [(''redirectUrl'', Str redirectUrl),
                               (''transactionId'', Str (''trans_'' @ uuid_2 s)),
                               (''status'', Str ''pending'')]), Clean db'))"

definition create_valid :: "env \<Rightarrow> body \<Rightarrow> bool" where
  "create_valid e b =
     (notEmpty e (Str (body_paymentId b)) \<and>
      (case body_cardDetails b of
         None \<Rightarrow> False
       | Some c \<Rightarrow>
           isCreditCard e (card_number c) \<and> matches_expiry e (card_expiry c) \<and>
           isLength_3_4 e (card_cvv c)))"

text \<open>The handler writes \<open>payment.status\<close> before it reads \<open>cardDetails.number\<close>, so a
  card number without a \<open>slice\<close> method throws after the first write. On an inherited
  object the writes land on a built-in object, and its \<open>amount\<close> and \<open>currency\<close> are
  \<open>undefined\<close>.\<close>

definition server_create :: "env \<Rightarrow> sys \<Rightarrow> req \<Rightarrow> paymentsDb \<Rightarrow> response \<times> store_state" where
  "server_create e s r db =
     (if \<not> authenticate e r then (unauthorized, Clean db)
      else if \<not> create_valid e (body r) then (validation_failed, Clean db)
      else
        let pid = body_paymentId (body r) in
        case paymentsDb_get db pid of
          Absent \<Rightarrow> (not_found, Clean db)
        | Own payment \<Rightarrow>
            (case card_tail (body r) of
               None \<Rightarrow> (internal_error, Clean (db(pid \<mapsto> payment\<lparr>status := ''created''\<rparr>)))
             | Some t \<Rightarrow>
                 (let payment' = payment\<lparr>status := ''created'', cardLast4 := t,
                                         updatedAt := Str (date_1 s)\<rparr>
                  in (Response 200 (Obj [(''paymentId'', Str pid),
                                         (''status'', Str ''created''),
                                         (''amount'', amount payment'),
                                         (''currency'', currency payment'),
                                         (''timestamp'', updatedAt payment')]),
                      Clean (db(pid \<mapsto> payment')))))
        | Inherited \<Rightarrow>
            (case card_tail (body r) of
               None \<Rightarrow> (internal_error, Polluted)
             | Some t \<Rightarrow>
                 (Response 200 (Obj [(''paymentId'', Str pid),
                                     (''status'', Str ''created''),
                                     (''amount'', Undefined),
                                     (''currency'', Undefined),
                                     (''timestamp'', Str (date_1 s))]),
                  Polluted)))"

text \<open>The status of an inherited object is \<open>undefined\<close>, which differs from \<open>created\<close>:
  the guard answers 400 and nothing is written.\<close>

definition server_capture :: "env \<Rightarrow> sys \<Rightarrow> req \<Rightarrow> paymentsDb \<Rightarrow> response \<times> store_state" where
  "server_capture e s r db =
     (if \<not> authenticate e r then (unauthorized, Clean db)
      else
        let pid = body_paymentId (body r); amt = body_amount (body r) in
        case paymentsDb_get db pid of
          Absent \<Rightarrow> (not_found, Clean db)
        | Inherited \<Rightarrow>
            (Response 400 (ErrorBody ''Payment not in creatable state''), Clean db)
        | Own payment \<Rightarrow>
            if status payment \<noteq> ''created''
            then (Response 400 (ErrorBody ''Payment not in creatable state''), Clean db)
            else
              (let payment' = payment\<lparr>status := ''captured'', capturedAmount := amt,
                                      updatedAt := Str (date_1 s)\<rparr>
               in (Response 200 (Obj [(''captureId'', Str (''cap_'' @ uuid_1 s)),
                                      (''status'', Str ''captured''),
                                      (''amount'', amt),
                                      (''timestamp'', updatedAt payment')]),
                   Clean (db(pid \<mapsto> payment')))))"

definition server_refund :: "env \<Rightarrow> sys \<Rightarrow> req \<Rightarrow> paymentsDb \<Rightarrow> response \<times> store_state" where
  "server_refund e s r db =
     (if \<not> authenticate e r then (unauthorized, Clean db)
      else
        let pid = body_paymentId (body r); amt = body_amount (body r) in
        case paymentsDb_get db pid of
          Absent \<Rightarrow> (not_found, Clean db)
        | Inherited \<Rightarrow> (Response 400 (ErrorBody ''Payment not refundable''), Clean db)
        | Own payment \<Rightarrow>
            if status payment \<noteq> ''captured''
            then (Response 400 (ErrorBody ''Payment not refundable''), Clean db)
            else
              (let payment' = payment\<lparr>status := ''refunded'', refundedAmount := amt,
                                      updatedAt := Str (date_1 s)\<rparr>
               in (Response 200 (Obj [(''refundId'', Str (''ref_'' @ uuid_1 s)),
                                      (''status'', Str ''refunded''),
                                      (''amount'', amt),
                                      (''timestamp'', updatedAt payment')]),
                   Clean (db(pid \<mapsto> payment')))))"

definition server_cancel :: "env \<Rightarrow> sys \<Rightarrow> req \<Rightarrow> paymentsDb \<Rightarrow> response \<times> store_state" where
  "server_cancel e s r db =
     (if \<not> authenticate e r then (unauthorized, Clean db)
      else
        let pid = body_paymentId (body r) in
        case paymentsDb_get db pid of
          Absent \<Rightarrow> (not_found, Clean db)
        | Inherited \<Rightarrow> (Response 400 (ErrorBody ''Payment not cancelable''), Clean db)
        | Own payment \<Rightarrow>
            if status payment \<notin> set [''pending'', ''created'']
            then (Response 400 (ErrorBody ''Payment not cancelable''), Clean db)
            else
              (let payment' = payment\<lparr>status := ''canceled'',
                                      updatedAt := Str (date_1 s)\<rparr>
               in (Response 200 (Obj [(''cancellationId'', Str (''can_'' @ uuid_1 s)),
                                      (''status'', Str ''canceled''),
                                      (''timestamp'', updatedAt payment')]),
                   Clean (db(pid \<mapsto> payment')))))"

text \<open>The callback route declares validators but never reads their result, and it has no
  \<open>authenticate\<close> middleware. A missing \<open>callbackUrls\<close> object makes the lookup throw after
  the record has been written; Express answers 500. An inherited object has no
  \<open>callbackUrls\<close>, so a signed callback for it writes onto the built-in object and then
  throws.\<close>

definition server_callback :: "env \<Rightarrow> sys \<Rightarrow> req \<Rightarrow> paymentsDb \<Rightarrow> response \<times> store_state" where
  "server_callback e s r db =
     (let pid = body_paymentId (body r); st = body_status (body r) in
      case paymentsDb_get db pid of
        Absent \<Rightarrow> (not_found, Clean db)
      | Inherited \<Rightarrow>
          (case generateSignature e (WholeBody (body r)) of
             None \<Rightarrow> (internal_error, Clean db)
           | Some expectedSignature \<Rightarrow>
               if x_signature (headers r) \<noteq> Some expectedSignature
               then (Response 403 (ErrorBody ''Invalid signature''), Clean db)
               else (internal_error, Polluted))
      | Own payment \<Rightarrow>
          (case generateSignature e (WholeBody (body r)) of
             None \<Rightarrow> (internal_error, Clean db)
           | Some expectedSignature \<Rightarrow>
               if x_signature (headers r) \<noteq> Some expectedSignature
               then (Response 403 (ErrorBody ''Invalid signature''), Clean db)
               else
                 (let payment' = payment\<lparr>status := st, updatedAt := Str (date_1 s)\<rparr>;
                      db' = db(pid \<mapsto> payment')
                  in (case callbackUrls payment' of
                        None \<Rightarrow> (internal_error, Clean db')
                      | Some urls \<Rightarrow>
                          (case generateSignature e (PaymentStatus pid st) of
                             None \<Rightarrow> (internal_error, Clean db')
                           | Some sg \<Rightarrow>
                               (Response 200
                                  (Obj [(''redirectUrl'',
                                           Str (template (callbackUrls_get e urls st)
                                                @ ''&sig='' @ sg)),
                                        (''status'', Str ''callback_processed'')]),
                                Clean db'))))))"

section \<open>src/unnamed/part_000, first server (variant 1)\<close>

text \<open>\<open>authenticate\<close> of this file calls \<open>verifyWixSignature\<close>, which the file neither
  defines nor imports: when the API key does not match and an \<open>x-wix-signature\<close> header is
  present, evaluating the name throws a \<open>ReferenceError\<close> and the error middleware
  answers 500. \<open>None\<close> stands for \<open>next()\<close>.\<close>

definition v1_authenticate :: "env \<Rightarrow> req \<Rightarrow> response option" where
  "v1_authenticate e r =
     (if x_api_key (headers r) = API_KEY e then None
      else if present (x_wix_signature (headers r)) then Some internal_error
      else Some unauthorized)"

definition v1_redirect :: "env \<Rightarrow> sys \<Rightarrow> req \<Rightarrow> paymentsDb \<Rightarrow> response \<times> store_state" where
  "v1_redirect e s r db =
     (case v1_authenticate e r of
        Some res \<Rightarrow> (res, Clean db)
      | None \<Rightarrow>
          if \<not> redirect_valid e (body r) then (validation_failed, Clean db)
          else
            (let b = body r;
                 pid = ''pay_'' @ uuid_1 s;
                 cur = (if truthy (body_currency b) then body_currency b else Str ''USD'');
                 db' = db(pid \<mapsto> new_payment pid b cur (date_1 s));
                 redirectUrl = template (PAYMENT_DOMAIN e) @ ''/checkout?paymentId='' @ pid
                               @ ''&token='' @ randomBytes_hex s
             in (Response 200 (Obj [(''redirectUrl'', Str redirectUrl),
                                    (''transactionId'', Str (''trans_'' @ uuid_2 s)),
                                    (''status'', Str ''pending'')]), Clean db')))"

text \<open>The create route of this file never reads the validation result and never looks the
  record up: it assigns a new object to \<open>paymentsDb[paymentId]\<close>. The object literal is
  evaluated first, so a card number without a \<open>slice\<close> method throws before the store is
  written. The assignment makes an own property, except under the key \<open>__proto__\<close>,
  where it replaces the prototype of \<open>paymentsDb\<close>.\<close>

definition v1_create :: "env \<Rightarrow> sys \<Rightarrow> req \<Rightarrow> paymentsDb \<Rightarrow> response \<times> store_state" where
  "v1_create e s r db =
     (case v1_authenticate e r of
        Some res \<Rightarrow> (res, Clean db)
      | None \<Rightarrow>
          (let pid = body_paymentId (body r) in
           case body_cardDetails (body r) of
             None \<Rightarrow> (internal_error, Clean db)
           | Some c \<Rightarrow>
               (case slice_last4 (card_number c) of
                  None \<Rightarrow> (internal_error, Clean db)
                | Some t \<Rightarrow>
                    (let payment' =
                           \<lparr> paymentId = Undefined, id' = Str pid, orderId = Undefined,
                             amount = Undefined, currency = Undefined, status = ''created'',
                             callbackUrls = None, createdAt = date_1 s,
                             updatedAt = Str (date_2 s), cardLast4 = Undefined,
                             cardDetails = Some \<lparr> last4 = t, expiry = card_expiry c \<rparr>,
                             capturedAmount = Undefined, refundedAmount = Undefined,
                             paymentMethod = Undefined, refundReason = Undefined,
                             cancelReason = Undefined \<rparr>
                     in (Response 200 (Obj [(''paymentId'', Str pid),
                                            (''status'', Str ''created''),
                                            (''timestamp'', Str (createdAt payment'))]),
                         if pid = ''__proto__'' then Polluted
                         else Clean (db(pid \<mapsto> payment')))))))"

text \<open>Capture and refund of this file have no status guard: on an inherited object they
  write onto the built-in object and answer 200.\<close>

definition v1_capture :: "env \<Rightarrow> sys \<Rightarrow> req \<Rightarrow> paymentsDb \<Rightarrow> response \<times> store_state" where
  "v1_capture e s r db =
     (case v1_authenticate e r of
        Some res \<Rightarrow> (res, Clean db)
      | None \<Rightarrow>
          (let pid = body_paymentId (body r); amt = body_amount (body r) in
           case paymentsDb_get db pid of
             Absent \<Rightarrow> (not_found, Clean db)
           | Inherited \<Rightarrow>
               (Response 200 (Obj [(''paymentId'', Str pid),
                                   (''status'', Str ''captured''),
                                   (''amount'', amt),
                                   (''timestamp'', Str (date_1 s))]),
                Polluted)
           | Own payment \<Rightarrow>
               (let payment' = payment\<lparr>status := ''captured'', capturedAmount := amt,
                                       updatedAt := Str (date_1 s)\<rparr>
                in (Response 200 (Obj [(''paymentId'', Str pid),
                                       (''status'', Str ''captured''),
                                       (''amount'', amt),
                                       (''timestamp'', updatedAt payment')]),
                    Clean (db(pid \<mapsto> payment'))))))"

definition v1_refund :: "env \<Rightarrow> sys \<Rightarrow> req \<Rightarrow> paymentsDb \<Rightarrow> response \<times> store_state" where
  "v1_refund e s r db =
     (case v1_authenticate e r of
        Some res \<Rightarrow> (res, Clean db)
      | None \<Rightarrow>
          (let pid = body_paymentId (body r); amt = body_amount (body r) in
           case paymentsDb_get db pid of
             Absent \<Rightarrow> (not_found, Clean db)
           | Inherited \<Rightarrow>
               (Response 200 (Obj [(''refundId'', Str (''ref_'' @ uuid_1 s)),
                                   (''status'', Str ''refunded''),
                                   (''amount'', amt),
                                   (''timestamp'', Str (date_1 s))]),
                Polluted)
           | Own payment \<Rightarrow>
               (let payment' = payment\<lparr>status := ''refunded'', refundedAmount := amt,
                                       updatedAt := Str (date_1 s)\<rparr>
                in (Response 200 (Obj [(''refundId'', Str (''ref_'' @ uuid_1 s)),
                                       (''status'', Str ''refunded''),
                                       (''amount'', amt),
                                       (''timestamp'', updatedAt payment')]),
                    Clean (db(pid \<mapsto> payment'))))))"

definition v1_cancel :: "env \<Rightarrow> sys \<Rightarrow> req \<Rightarrow> paymentsDb \<Rightarrow> response \<times> store_state" where
  "v1_cancel e s r db =
     (case v1_authenticate e r of
        Some res \<Rightarrow> (res, Clean db)
      | None \<Rightarrow>
          (let pid = body_paymentId (body r) in
           case paymentsDb_get db pid of
             Absent \<Rightarrow> (not_found, Clean db)
           | Inherited \<Rightarrow> (Response 400 (ErrorBody ''Payment not cancelable''), Clean db)
           | Own payment \<Rightarrow>
               if status payment \<notin> set [''pending'', ''created'']
               then (Response 400 (ErrorBody ''Payment not cancelable''), Clean db)
               else
                 (let payment' = payment\<lparr>status := ''canceled'',
                                         updatedAt := Str (date_1 s)\<rparr>
                  in (Response 200 (Obj [(''cancellationId'', Str (''can_'' @ uuid_1 s)),
                                         (''status'', Str ''canceled''),
                                         (''timestamp'', updatedAt payment')]),
                      Clean (db(pid \<mapsto> payment'))))))"

text \<open>The callback of this file guards the lookup of the URL: a record without
  \<open>callbackUrls\<close> (an inherited object has none), a key that is not there and an empty URL
  all give \<open>redirectUrl: null\<close>.\<close>

definition v1_callback :: "env \<Rightarrow> sys \<Rightarrow> req \<Rightarrow> paymentsDb \<Rightarrow> response \<times> store_state" where
  "v1_callback e s r db =
     (let pid = body_paymentId (body r); st = body_status (body r) in
      case paymentsDb_get db pid of
        Absent \<Rightarrow> (not_found, Clean db)
      | Inherited \<Rightarrow>
          (case generateSignature e (WholeBody (body r)) of
             None \<Rightarrow> (internal_error, Clean db)
           | Some expectedSignature \<Rightarrow>
               if x_signature (headers r) \<noteq> Some expectedSignature
               then (Response 403 (ErrorBody ''Invalid signature''), Clean db)
               else (Response 200 (Obj [(''status'', Str ''callback_processed''),
                                        (''redirectUrl'', Null)]), Polluted))
      | Own payment \<Rightarrow>
          (case generateSignature e (WholeBody (body r)) of
             None \<Rightarrow> (internal_error, Clean db)
           | Some expectedSignature \<Rightarrow>
               if x_signature (headers r) \<noteq> Some expectedSignature
               then (Response 403 (ErrorBody ''Invalid signature''), Clean db)
               else
                 (let payment' = payment\<lparr>status := st, updatedAt := Str (date_1 s)\<rparr>;
                      db' = db(pid \<mapsto> payment');
                      callbackUrl = (case callbackUrls payment' of
                                       None \<Rightarrow> None
                                     | Some urls \<Rightarrow> callbackUrls_get e urls st);
                      callbackUrl_truthy = (case callbackUrls payment' of
                                              None \<Rightarrow> False
                                            | Some urls \<Rightarrow> callbackUrls_truthy urls st)
                  in if callbackUrl_truthy
                     then (case generateSignature e (PaymentStatus pid st) of
                             None \<Rightarrow> (internal_error, Clean db')
                           | Some sg \<Rightarrow>
                               (Response 200
                                  (Obj [(''status'', Str ''callback_processed''),
                                        (''redirectUrl'',
                                           Str (template callbackUrl @ ''&sig='' @ sg))]),
                                Clean db'))
                     else (Response 200 (Obj [(''status'', Str ''callback_processed''),
                                              (''redirectUrl'', Null)]), Clean db'))))"

section \<open>src/unnamed/part_000, second server (variant 2)\<close>

text \<open>This file has no authentication middleware and no validators; every handler runs
  inside \<open>try\<close>/\<open>catch\<close>, and the \<open>catch\<close> answers 500. Its configuration falls back to
  built-in defaults, so \<open>generateSignature\<close> cannot throw. \<open>notifyWix\<close> only computes a
  signature and logs; it changes neither the store nor the response and is left out.\<close>

definition v2_hmacSecret :: "env \<Rightarrow> string" where
  "v2_hmacSecret e = (if present (HMAC_SECRET e) then template (HMAC_SECRET e)
                      else ''your_hmac_secret'')"

definition v2_generateSignature :: "env \<Rightarrow> sigdata \<Rightarrow> string" where
  "v2_generateSignature e d = hmac_sha256_hex e (v2_hmacSecret e) (JSON_stringify e d)"

text \<open>\<open>validateCardNumber\<close>: the Luhn loop walks the digits from the last to the first
  (the source's accumulator \<open>sum\<close> is \<open>acc\<close> here).\<close>

definition parseInt_digit :: "char \<Rightarrow> nat" where
  "parseInt_digit c = of_char c - 48"

fun luhn_loop :: "string \<Rightarrow> bool \<Rightarrow> nat \<Rightarrow> nat" where
  "luhn_loop [] shouldDouble acc = acc"
| "luhn_loop (c # cs) shouldDouble acc =
     (let digit = parseInt_digit c;
          digit = (if shouldDouble
                   then (if digit * 2 > 9 then digit * 2 - 9 else digit * 2)
                   else digit)
      in luhn_loop cs (\<not> shouldDouble) (acc + digit))"

definition validateCardNumber :: "string \<Rightarrow> bool" where
  "validateCardNumber cardNumber =
     (let cleaned = filter is_digit cardNumber
      in luhn_loop (rev cleaned) False 0 mod 10 = 0)"

definition v2_redirect :: "env \<Rightarrow> sys \<Rightarrow> req \<Rightarrow> paymentsDb \<Rightarrow> response \<times> store_state" where
  "v2_redirect e s r db =
     (let b = body r in
      if \<not> truthy (body_orderId b) \<or> \<not> truthy (body_amount b) \<or>
         \<not> truthy (body_currency b) \<or> body_callbackUrls b = None
      then (Response 400 (ErrorBody ''Missing required fields''), Clean db)
      else
        (let pid = ''pay_'' @ uuid_1 s;
             transactionId = ''trans_'' @ uuid_2 s;
             db' = db(pid \<mapsto> new_payment pid b (body_currency b) (date_1 s));
             redirectUrl = ''https://yourpaymentgateway.com/checkout?paymentId='' @ pid
                           @ ''&token='' @ randomBytes_hex s
         in (Response 200 (Obj [(''redirectUrl'', Str redirectUrl),
                                (''transactionId'', Str transactionId),
                                (''status'', Str ''redirect'')]), Clean db')))"

text \<open>The card check of the create route. \<open>validateCardNumber\<close> calls
  \<open>cardNumber.replace\<close>, which only a string has: any other truthy number throws, and
  the \<open>catch\<close> answers 500.\<close>

definition v2_card_check :: "body \<Rightarrow> response option" where
  "v2_card_check b =
     (if body_paymentMethod b = Str ''credit_card''
      then (case body_cardDetails b of
              None \<Rightarrow> Some (Response 400 (ErrorBody ''Invalid card details''))
            | Some c \<Rightarrow>
                if \<not> truthy (card_number c) \<or> \<not> truthy (card_expiry c) \<or>
                   \<not> truthy (card_cvv c)
                then Some (Response 400 (ErrorBody ''Invalid card details''))
                else (case card_number c of
                        Str n \<Rightarrow>
                          if \<not> validateCardNumber n
                          then Some (Response 400 (ErrorBody ''Invalid card number''))
                          else None
                      | _ \<Rightarrow> Some internal_error))
      else None)"

definition v2_create :: "env \<Rightarrow> sys \<Rightarrow> req \<Rightarrow> paymentsDb \<Rightarrow> response \<times> store_state" where
  "v2_create e s r db =
     (let b = body r; pid = body_paymentId b in
      case paymentsDb_get db pid of
        Absent \<Rightarrow> (not_found, Clean db)
      | Inherited \<Rightarrow>
          (case v2_card_check b of
             Some res \<Rightarrow> (res, Clean db)
           | None \<Rightarrow>
               (Response 200 (Obj [(''paymentId'', Str pid),
                                   (''status'', Str ''created''),
                                   (''amount'', Undefined),
                                   (''currency'', Undefined),
                                   (''timestamp'', Str (date_2 s))]),
                Polluted))
      | Own payment \<Rightarrow>
          (case v2_card_check b of
             Some res \<Rightarrow> (res, Clean db)
           | None \<Rightarrow>
               (let payment' = payment\<lparr>status := ''created'',
                                       paymentMethod := body_paymentMethod b,
                                       updatedAt := Str (date_1 s)\<rparr>
                in (Response 200 (Obj [(''paymentId'', Str pid),
                                       (''status'', Str ''created''),
                                       (''amount'', amount payment'),
                                       (''currency'', currency payment'),
                                       (''timestamp'', Str (date_2 s))]),
                    Clean (db(pid \<mapsto> payment'))))))"

definition v2_capture :: "env \<Rightarrow> sys \<Rightarrow> req \<Rightarrow> paymentsDb \<Rightarrow> response \<times> store_state" where
  "v2_capture e s r db =
     (let pid = body_paymentId (body r); amt = body_amount (body r) in
      case paymentsDb_get db pid of
        Absent \<Rightarrow> (not_found, Clean db)
      | Inherited \<Rightarrow>
          (Response 400 (ErrorBody ''Payment not in creatable state''), Clean db)
      | Own payment \<Rightarrow>
          if status payment \<noteq> ''created''
          then (Response 400 (ErrorBody ''Payment not in creatable state''), Clean db)
          else
            (let payment' = payment\<lparr>status := ''captured'', capturedAmount := amt,
                                    updatedAt := Str (date_1 s)\<rparr>
             in (Response 200 (Obj [(''captureId'', Str (''cap_'' @ uuid_1 s)),
                                    (''status'', Str ''captured''),
                                    (''amount'', amt),
                                    (''timestamp'', Str (date_2 s))]),
                 Clean (db(pid \<mapsto> payment')))))"

definition v2_refund :: "env \<Rightarrow> sys \<Rightarrow> req \<Rightarrow> paymentsDb \<Rightarrow> response \<times> store_state" where
  "v2_refund e s r db =
     (let pid = body_paymentId (body r); amt = body_amount (body r);
          reason = body_reason (body r) in
      case paymentsDb_get db pid of
        Absent \<Rightarrow> (not_found, Clean db)
      | Inherited \<Rightarrow>
          (Response 400 (ErrorBody ''Payment not in refundable state''), Clean db)
      | Own payment \<Rightarrow>
          if status payment \<noteq> ''captured''
          then (Response 400 (ErrorBody ''Payment not in refundable state''), Clean db)
          else
            (let payment' = payment\<lparr>status := ''refunded'', refundedAmount := amt,
                                    refundReason := reason, updatedAt := Str (date_1 s)\<rparr>
             in (Response 200 (Obj [(''refundId'', Str (''ref_'' @ uuid_1 s)),
                                    (''status'', Str ''refunded''),
                                    (''amount'', amt),
                                    (''reason'', reason),
                                    (''timestamp'', Str (date_2 s))]),
                 Clean (db(pid \<mapsto> payment')))))"

definition v2_cancel :: "env \<Rightarrow> sys \<Rightarrow> req \<Rightarrow> paymentsDb \<Rightarrow> response \<times> store_state" where
  "v2_cancel e s r db =
     (let pid = body_paymentId (body r); reason = body_reason (body r) in
      case paymentsDb_get db pid of
        Absent \<Rightarrow> (not_found, Clean db)
      | Inherited \<Rightarrow>
          (Response 400 (ErrorBody ''Payment not in cancelable state''), Clean db)
      | Own payment \<Rightarrow>
          if status payment \<notin> set [''pending'', ''created'']
          then (Response 400 (ErrorBody ''Payment not in cancelable state''), Clean db)
          else
            (let payment' = payment\<lparr>status := ''canceled'', cancelReason := reason,
                                    updatedAt := Str (date_1 s)\<rparr>
             in (Response 200 (Obj [(''cancellationId'', Str (''can_'' @ uuid_1 s)),
                                    (''status'', Str ''canceled''),
                                    (''reason'', reason),
                                    (''timestamp'', Str (date_2 s))]),
                 Clean (db(pid \<mapsto> payment')))))"

text \<open>The callback of this file reads no \<open>x-signature\<close> header. It checks the status
  itself and picks the URL by a \<open>switch\<close>: \<open>failed\<close> reads \<open>callbackUrls.failure\<close>, \<open>canceled\<close>
  reads \<open>callbackUrls.cancel\<close>. A record without \<open>callbackUrls\<close> (an inherited object has
  none) throws after the status has been written, and the \<open>catch\<close> answers 500.\<close>

definition v2_callback :: "env \<Rightarrow> sys \<Rightarrow> req \<Rightarrow> paymentsDb \<Rightarrow> response \<times> store_state" where
  "v2_callback e s r db =
     (let pid = body_paymentId (body r); st = body_status (body r) in
      case paymentsDb_get db pid of
        Absent \<Rightarrow> (not_found, Clean db)
      | Inherited \<Rightarrow>
          if st \<notin> set [''success'', ''failed'', ''canceled'']
          then (Response 400 (ErrorBody ''Invalid status''), Clean db)
          else (internal_error, Polluted)
      | Own payment \<Rightarrow>
          if st \<notin> set [''success'', ''failed'', ''canceled'']
          then (Response 400 (ErrorBody ''Invalid status''), Clean db)
          else
            (let payment' = payment\<lparr>status := st, updatedAt := Str (date_1 s)\<rparr>;
                 db' = db(pid \<mapsto> payment')
             in (case callbackUrls payment' of
                   None \<Rightarrow> (internal_error, Clean db')
                 | Some urls \<Rightarrow>
                     (let redirectUrl = (if st = ''success'' then urls ''success''
                                         else if st = ''failed'' then urls ''failure''
                                         else urls ''cancel'');
                          signature = v2_generateSignature e (PaymentStatus pid st)
                      in (Response 200
                            (Obj [(''redirectUrl'',
                                     Str (template redirectUrl @ ''&sig='' @ signature)),
                                  (''status'', Str ''callback_processed''),
                                  (''timestamp'', Str (date_2 s))]),
                          Clean db')))))"

section \<open>The three servers as one step function\<close>

fun handle :: "variant \<Rightarrow> route \<Rightarrow> env \<Rightarrow> sys \<Rightarrow> req \<Rightarrow> paymentsDb \<Rightarrow> response \<times> store_state" where
  "handle Server Redirect = server_redirect"
| "handle Server Create = server_create"
| "handle Server Capture = server_capture"
| "handle Server Refund = server_refund"
| "handle Server Cancel = server_cancel"
| "handle Server Callback = server_callback"
| "handle Variant1 Redirect = v1_redirect"
| "handle Variant1 Create = v1_create"
| "handle Variant1 Capture = v1_capture"
| "handle Variant1 Refund = v1_refund"
| "handle Variant1 Cancel = v1_cancel"
| "handle Variant1 Callback = v1_callback"
| "handle Variant2 Redirect = v2_redirect"
| "handle Variant2 Create = v2_create"
| "handle Variant2 Capture = v2_capture"
| "handle Variant2 Refund = v2_refund"
| "handle Variant2 Cancel = v2_cancel"
| "handle Variant2 Callback = v2_callback"

text \<open>A run: requests handled one after the other, each to completion. It ends where a
  handler has written onto a built-in object.\<close>

fun run :: "variant \<Rightarrow> env \<Rightarrow> (route \<times> sys \<times> req) list \<Rightarrow> store_state \<Rightarrow> store_state" where
  "run v e [] st = st"
| "run v e ((rt, s, r) # rest) Polluted = Polluted"
| "run v e ((rt, s, r) # rest) (Clean db) = run v e rest (snd (handle v rt e s r db))"

text \<open>The status of the record under a key, in a state that has its records.\<close>

fun status_at :: "store_state \<Rightarrow> string \<Rightarrow> string option" where
  "status_at (Clean db) k = map_option status (db k)"
| "status_at Polluted k = None"


section \<open>Predicates used by the properties\<close>

text \<open>The request gets past the middleware and the validation that stand before the
  handler's lookup of the record: the API key for the authenticated routes of
  \<open>server.js\<close> and variant 1, and the validation result where the handler reads it
  (only the create route of \<open>server.js\<close>, among the routes that look a record up).\<close>

fun reaches_lookup :: "variant \<Rightarrow> route \<Rightarrow> env \<Rightarrow> req \<Rightarrow> bool" where
  "reaches_lookup Variant2 rt e r = True"
| "reaches_lookup Server Callback e r = True"
| "reaches_lookup Variant1 Callback e r = True"
| "reaches_lookup Server Create e r = (authenticate e r \<and> create_valid e (body r))"
| "reaches_lookup Server rt e r = authenticate e r"
| "reaches_lookup Variant1 rt e r = (v1_authenticate e r = None)"

text \<open>The redirect request is accepted: authenticated and valid for \<open>server.js\<close> and
  variant 1; all four fields present for variant 2.\<close>

fun redirect_accepted :: "variant \<Rightarrow> env \<Rightarrow> req \<Rightarrow> bool" where
  "redirect_accepted Server e r = (authenticate e r \<and> redirect_valid e (body r))"
| "redirect_accepted Variant1 e r = (v1_authenticate e r = None \<and> redirect_valid e (body r))"
| "redirect_accepted Variant2 e r =
     (truthy (body_orderId (body r)) \<and> truthy (body_amount (body r)) \<and>
      truthy (body_currency (body r)) \<and> body_callbackUrls (body r) \<noteq> None)"

text \<open>The status edges as the specification lists them: the chain
  pending, created, captured, refunded; cancellation from pending or created; and any
  status to failed, success or canceled through the callback.\<close>

definition claimed_edge :: "route \<Rightarrow> string \<Rightarrow> string \<Rightarrow> bool" where
  "claimed_edge rt s s' =
     ((s = ''pending'' \<and> s' = ''created'') \<or> (s = ''created'' \<and> s' = ''captured'') \<or>
      (s = ''captured'' \<and> s' = ''refunded'') \<or>
      ((s = ''pending'' \<or> s = ''created'') \<and> s' = ''canceled'') \<or>
      (rt = Callback \<and> (s' = ''failed'' \<or> s' = ''success'' \<or> s' = ''canceled'')))"

text \<open>The status edges the handlers implement, for a callback whose status is one of
  \<open>success\<close>, \<open>failed\<close> and \<open>canceled\<close>. \<open>st\<close> is the status in the request body.\<close>

fun allowed :: "variant \<Rightarrow> route \<Rightarrow> string \<Rightarrow> string \<Rightarrow> string \<Rightarrow> bool" where
  "allowed v Redirect st s s' = False"
| "allowed v Create st s s' = (s' = ''created'')"
| "allowed v Capture st s s' = (s' = ''captured'' \<and> (v = Variant1 \<or> s = ''created''))"
| "allowed v Refund st s s' = (s' = ''refunded'' \<and> (v = Variant1 \<or> s = ''captured''))"
| "allowed v Cancel st s s' = (s' = ''canceled'' \<and> (s = ''pending'' \<or> s = ''created''))"
| "allowed v Callback st s s' =
     (s' = st \<and> (st = ''success'' \<or> st = ''failed'' \<or> st = ''canceled''))"

section \<open>Sample data for the concrete instances\<close>

text \<open>A sample environment. Its HMAC and serialiser are simple stand-ins. Its validators
  are narrower than the real ones and accept the sample inputs below, which the real
  validators accept as well: a non-empty order identifier, a JSON number, \<open>https\<close> URLs
  on \<open>example.com\<close>, sixteen-digit Visa numbers that pass the Luhn check, an expiry of
  the form \<open>dd/dd\<close> and a CVV of three or four characters.\<close>

fun demo_notEmpty :: "jsval \<Rightarrow> bool" where
  "demo_notEmpty (Str s) = (s \<noteq> [])"
| "demo_notEmpty _ = False"

fun demo_isNumeric :: "jsval \<Rightarrow> bool" where
  "demo_isNumeric (Num x) = True"
| "demo_isNumeric _ = False"

definition demo_isURL :: "string \<Rightarrow> bool" where
  "demo_isURL u = (take 20 u = ''https://example.com/'')"

fun demo_isCreditCard :: "jsval \<Rightarrow> bool" where
  "demo_isCreditCard (Str n) =
     (length n = 16 \<and> take 1 n = ''4'' \<and> list_all is_digit n \<and> validateCardNumber n)"
| "demo_isCreditCard _ = False"

fun demo_matches_expiry :: "jsval \<Rightarrow> bool" where
  "demo_matches_expiry (Str [a, b, c, d, e]) =
     (is_digit a \<and> is_digit b \<and> c = CHR ''/'' \<and> is_digit d \<and> is_digit e)"
| "demo_matches_expiry _ = False"

fun demo_isLength_3_4 :: "jsval \<Rightarrow> bool" where
  "demo_isLength_3_4 (Str s) = (3 \<le> length s \<and> length s \<le> 4)"
| "demo_isLength_3_4 _ = False"

definition demo_env :: env where
  "demo_env =
     \<lparr> API_KEY = Some ''key'', HMAC_SECRET = Some ''secret'',
       PAYMENT_DOMAIN = Some ''https://pay.example.com'',
       hmac_sha256_hex = (\<lambda>k m. k @ ''|'' @ m),
       JSON_stringify = (\<lambda>d. case d of WholeBody b \<Rightarrow> body_paymentId b @ '','' @ body_status b
                                | PaymentStatus p st \<Rightarrow> p @ '','' @ st),
       notEmpty = demo_notEmpty, isNumeric = demo_isNumeric, isURL = demo_isURL,
       isCreditCard = demo_isCreditCard, matches_expiry = demo_matches_expiry,
       isLength_3_4 = demo_isLength_3_4,
       builtin_text = (\<lambda>k. ''[object Object]'') \<rparr>"

definition demo_sys :: sys where
  "demo_sys = \<lparr> uuid_1 = ''u1'', uuid_2 = ''u2'', date_1 = ''2024-01-01T10:00:00.000Z'',
                date_2 = ''2024-01-01T10:00:00.001Z'', randomBytes_hex = ''00ff'' \<rparr>"

definition blank_body :: body where
  "blank_body =
     \<lparr> body_paymentId = [], body_orderId = Undefined, body_amount = Undefined,
       body_currency = Undefined, body_callbackUrls = None, body_cardDetails = None,
       body_paymentMethod = Undefined, body_reason = Undefined, body_status = [] \<rparr>"

definition demo_urls :: "string \<rightharpoonup> string" where
  "demo_urls = [''success'' \<mapsto> ''https://example.com/s'',
                ''failure'' \<mapsto> ''https://example.com/f'',
                ''cancel'' \<mapsto> ''https://example.com/c'']"

definition api_headers :: headers where
  "api_headers = \<lparr> x_api_key = Some ''key'', x_wix_signature = None, x_signature = None \<rparr>"

text \<open>A redirect call with an order identifier, an amount and three callback URLs, and
  no currency.\<close>

definition demo_redirect :: req where
  "demo_redirect =
     \<lparr> headers = api_headers,
       body = blank_body\<lparr>body_orderId := Str ''o1'', body_amount := Num 10,
                          body_callbackUrls := Some demo_urls\<rparr> \<rparr>"

definition demo_card :: "jsval \<Rightarrow> string \<Rightarrow> card" where
  "demo_card n cvv =
     \<lparr> card_number = n, card_expiry = Str ''12/30'', card_cvv = Str cvv \<rparr>"

text \<open>A create request for the payment under a key, with a card number and a CVV.\<close>

definition demo_create :: "string \<Rightarrow> jsval \<Rightarrow> string \<Rightarrow> req" where
  "demo_create pid n cvv =
     \<lparr> headers = api_headers,
       body = blank_body\<lparr>body_paymentId := pid,
                          body_cardDetails := Some (demo_card n cvv)\<rparr> \<rparr>"

text \<open>A capture, refund or cancel request for the payment under a key.\<close>

definition demo_op :: "string \<Rightarrow> req" where
  "demo_op pid =
     \<lparr> headers = api_headers,
       body = blank_body\<lparr>body_paymentId := pid, body_amount := Num 10\<rparr> \<rparr>"

text \<open>A callback for the payment under a key, with a status and an \<open>x-signature\<close>
  header.\<close>

definition demo_callback :: "string \<Rightarrow> string \<Rightarrow> string option \<Rightarrow> req" where
  "demo_callback pid st sg =
     \<lparr> headers = \<lparr> x_api_key = None, x_wix_signature = None, x_signature = sg \<rparr>,
       body = blank_body\<lparr>body_paymentId := pid, body_status := st\<rparr> \<rparr>"

text \<open>The record that the sample redirect stores, with a given status, and the store
  that holds only this record.\<close>

definition demo_payment :: "string \<Rightarrow> payment" where
  "demo_payment st =
     (new_payment ''pay_u1'' (body demo_redirect) (Str ''USD'') ''2024-01-01T10:00:00.000Z'')
       \<lparr>status := st\<rparr>"

definition demo_db :: "string \<Rightarrow> paymentsDb" where
  "demo_db st = [''pay_u1'' \<mapsto> demo_payment st]"

text \<open>The life of a payment up to its capture: redirect, create, capture.\<close>

definition demo_steps :: "(route \<times> sys \<times> req) list" where
  "demo_steps =
     [(Redirect, demo_sys, demo_redirect),
      (Create, demo_sys, demo_create ''pay_u1'' (Str ''4111111111111111'') ''123''),
      (Capture, demo_sys, demo_op ''pay_u1'')]"

text \<open>The same redirect call with a currency, as variant 2 requires it.\<close>

definition demo_redirect_usd :: req where
  "demo_redirect_usd =
     \<lparr> headers = api_headers,
       body = blank_body\<lparr>body_orderId := Str ''o1'', body_amount := Num 10,
                          body_currency := Str ''USD'',
                          body_callbackUrls := Some demo_urls\<rparr> \<rparr>"

section \<open>Unfolding rules\<close>

lemmas response_defs = not_found_def unauthorized_def internal_error_def validation_failed_def

lemmas server_defs = server_redirect_def server_create_def server_capture_def
  server_refund_def server_cancel_def server_callback_def

lemmas v1_defs = v1_redirect_def v1_create_def v1_capture_def v1_refund_def v1_cancel_def
  v1_callback_def

lemmas v2_defs = v2_redirect_def v2_create_def v2_capture_def v2_refund_def v2_cancel_def
  v2_callback_def

lemmas demo_defs = demo_env_def demo_sys_def blank_body_def demo_urls_def api_headers_def
  demo_redirect_def demo_card_def demo_create_def demo_op_def demo_callback_def
  demo_payment_def demo_db_def new_payment_def demo_isURL_def demo_redirect_usd_def

lemmas check_defs = authenticate_def v1_authenticate_def redirect_valid_def create_valid_def
  url_ok_def generateSignature_def v2_generateSignature_def v2_hmacSecret_def
  v2_card_check_def is_digit_def card_tail_def

lemmas lookup_defs = paymentsDb_get_def callbackUrls_get_def callbackUrls_truthy_def

text \<open>The lookup of an own record, and of a key that is neither own nor inherited.\<close>

lemma paymentsDb_get_own: "db k = Some p \<Longrightarrow> paymentsDb_get db k = Own p"
  by (simp add: paymentsDb_get_def)

lemma paymentsDb_get_absent:
  "db k = None \<Longrightarrow> k \<notin> set inherited_names \<Longrightarrow> paymentsDb_get db k = Absent"
  by (simp add: paymentsDb_get_def)

lemma paymentsDb_get_inherited:
  "db k = None \<Longrightarrow> k \<in> set inherited_names \<Longrightarrow> paymentsDb_get db k = Inherited"
  by (simp add: paymentsDb_get_def)

text \<open>The two sample card numbers pass the sample validator; they share their last four
  digits.\<close>

lemma demo_numbers_luhn:
  "validateCardNumber ''4111111111111111''"
  "validateCardNumber ''4000000000061111''"
  by (simp_all add: validateCardNumber_def is_digit_def parseInt_digit_def)

lemma demo_cards_valid:
  "demo_isCreditCard (Str ''4111111111111111'')"
  "demo_isCreditCard (Str ''4000000000061111'')"
  by (simp_all add: validateCardNumber_def is_digit_def parseInt_digit_def)

lemma status_names_not_inherited:
  "''success'' \<notin> set inherited_names" "''failed'' \<notin> set inherited_names"
  "''canceled'' \<notin> set inherited_names" "''pay_u1'' \<notin> set inherited_names"
  "''constructor'' \<in> set inherited_names" "''__proto__'' \<in> set inherited_names"
  by (simp_all add: inherited_names_def)

lemma generated_key_not_inherited: "''pay_'' @ u \<notin> set inherited_names"
  by (simp add: inherited_names_def)


section \<open>A forged callback signature (C1)\<close>

text \<open>
  C1, as stated, fails: the callback of variant 2 reads no signature header. After a
  redirect, a callback with a forged \<open>x-signature\<close> is processed there and the record's
  status and \<open>updatedAt\<close> change; and in \<open>server.js\<close> a forged request for an unknown
  \<open>paymentId\<close> is answered 404, not 403.
\<close>

theorem forged_signature_counterexample:
  "snd (handle Variant2 Redirect demo_env demo_sys demo_redirect_usd Map.empty)
     = Clean (demo_db ''pending'') \<and>
   x_signature (headers (demo_callback ''pay_u1'' ''failed'' (Some ''forged'')))
     \<noteq> Some (v2_generateSignature demo_env
                (WholeBody (body (demo_callback ''pay_u1'' ''failed'' (Some ''forged''))))) \<and>
   handle Variant2 Callback demo_env demo_sys
       (demo_callback ''pay_u1'' ''failed'' (Some ''forged'')) (demo_db ''pending'')
     = (Response 200
          (Obj [(''redirectUrl'', Str ''https://example.com/f&sig=secret|pay_u1,failed''),
                (''status'', Str ''callback_processed''),
                (''timestamp'', Str ''2024-01-01T10:00:00.001Z'')]),
        Clean ((demo_db ''pending'')(''pay_u1'' \<mapsto>
                 (demo_payment ''pending'')\<lparr>status := ''failed'',
                    updatedAt := Str ''2024-01-01T10:00:00.000Z''\<rparr>))) \<and>
   generateSignature demo_env
       (WholeBody (body (demo_callback ''pay_u1'' ''failed'' (Some ''forged''))))
     = Some ''secret|pay_u1,failed'' \<and>
   handle Server Callback demo_env demo_sys
       (demo_callback ''pay_u1'' ''failed'' (Some ''forged'')) Map.empty
     = (Response 404 (ErrorBody ''Payment not found''), Clean Map.empty)"
  by (simp add: v2_redirect_def v2_callback_def server_callback_def check_defs response_defs
        lookup_defs inherited_names_def demo_defs Let_def)

text \<open>
  C1, amended. In \<open>server.js\<close> and variant 1, for every callback request for an existing
  record whose \<open>x-signature\<close> header is missing or differs from the HMAC of the request
  body, the answer is 403 and the store (hence the record's status and \<open>updatedAt\<close>) is
  unchanged.
\<close>

theorem forged_signature_rejected:
  assumes "v = Server \<or> v = Variant1"
    and "db (body_paymentId (body r)) = Some p"
    and "generateSignature e (WholeBody (body r)) = Some sg"
    and "x_signature (headers r) \<noteq> Some sg"
  shows "handle v Callback e s r db
           = (Response 403 (ErrorBody ''Invalid signature''), Clean db)"
  using assms
  by (auto simp: server_callback_def v1_callback_def paymentsDb_get_own Let_def)

theorem forged_signature_rejected_witness:
  "demo_db ''pending''
       (body_paymentId (body (demo_callback ''pay_u1'' ''failed'' (Some ''forged''))))
     = Some (demo_payment ''pending'') \<and>
   generateSignature demo_env
       (WholeBody (body (demo_callback ''pay_u1'' ''failed'' (Some ''forged''))))
     = Some ''secret|pay_u1,failed'' \<and>
   handle Server Callback demo_env demo_sys
       (demo_callback ''pay_u1'' ''failed'' (Some ''forged'')) (demo_db ''pending'')
     = (Response 403 (ErrorBody ''Invalid signature''), Clean (demo_db ''pending''))"
proof -
  let ?r = "demo_callback ''pay_u1'' ''failed'' (Some ''forged'')"
  have a: "demo_db ''pending'' (body_paymentId (body ?r)) = Some (demo_payment ''pending'')"
    by (simp add: demo_defs)
  have b: "generateSignature demo_env (WholeBody (body ?r)) = Some ''secret|pay_u1,failed''"
    by (simp add: generateSignature_def demo_defs)
  have c: "x_signature (headers ?r) \<noteq> Some ''secret|pay_u1,failed''"
    by (simp add: demo_defs)
  from forged_signature_rejected [where v = Server and db = "demo_db ''pending''" and r = ?r
      and p = "demo_payment ''pending''" and e = demo_env and sg = "''secret|pay_u1,failed''"
      and s = demo_sys] a b c
  show ?thesis by simp
qed

section \<open>Status transitions (C2)\<close>

text \<open>
  C2, as stated, fails. In \<open>server.js\<close> the run redirect, create, capture from the empty
  store leaves the record \<open>captured\<close>, and a further create moves it back to \<open>created\<close>:
  create has no status guard. In variant 1, capture and refund take the \<open>pending\<close> record
  that a redirect has just stored to \<open>captured\<close> and to \<open>refunded\<close>.
\<close>

theorem status_edges_counterexample:
  "status_at (run Server demo_env demo_steps (Clean Map.empty)) ''pay_u1'' = Some ''captured'' \<and>
   status_at
     (run Server demo_env
        (demo_steps @
         [(Create, demo_sys, demo_create ''pay_u1'' (Str ''4111111111111111'') ''123'')])
        (Clean Map.empty)) ''pay_u1'' = Some ''created'' \<and>
   \<not> claimed_edge Create ''captured'' ''created'' \<and>
   status_at
     (run Variant1 demo_env [(Redirect, demo_sys, demo_redirect)] (Clean Map.empty))
     ''pay_u1'' = Some ''pending'' \<and>
   status_at
     (run Variant1 demo_env
        [(Redirect, demo_sys, demo_redirect), (Capture, demo_sys, demo_op ''pay_u1'')]
        (Clean Map.empty)) ''pay_u1'' = Some ''captured'' \<and>
   \<not> claimed_edge Capture ''pending'' ''captured'' \<and>
   status_at
     (run Variant1 demo_env
        [(Redirect, demo_sys, demo_redirect), (Refund, demo_sys, demo_op ''pay_u1'')]
        (Clean Map.empty)) ''pay_u1'' = Some ''refunded'' \<and>
   \<not> claimed_edge Refund ''pending'' ''refunded''"
  by (simp add: demo_steps_def server_defs v1_defs check_defs lookup_defs demo_numbers_luhn
        demo_defs claimed_edge_def Let_def)

text \<open>
  C2, amended. In every server, one request that leaves the built-in objects alone
  changes the status of an existing record only along these edges, and never removes a
  record: create, any status to \<open>created\<close>; capture, \<open>created\<close> to \<open>captured\<close> (variant 1:
  any status to \<open>captured\<close>); refund, \<open>captured\<close> to \<open>refunded\<close> (variant 1: any status to
  \<open>refunded\<close>); cancel, \<open>pending\<close> or \<open>created\<close> to \<open>canceled\<close>; callback with status
  \<open>success\<close>, \<open>failed\<close> or \<open>canceled\<close>, any status to that status; redirect changes no
  existing record, provided the identifier it generates is not yet a key of the store.
  Since the store is arbitrary, this covers every store a sequence of requests reaches.
\<close>

theorem status_moves_along_implemented_edges:
  assumes "handle v rt e s r db = (res, Clean db')"
    and "rt = Redirect \<longrightarrow> db (''pay_'' @ uuid_1 s) = None"
    and "rt = Callback \<longrightarrow>
           body_status (body r) \<in> set [''success'', ''failed'', ''canceled'']"
    and "db k = Some p"
  shows "\<exists>p'. db' k = Some p' \<and>
           (status p' = status p \<or>
            allowed v rt (body_status (body r)) (status p) (status p'))"
proof (cases "rt = Redirect")
  case True
  with assms show ?thesis
    by (cases v)
       (auto simp: server_redirect_def v1_redirect_def v2_redirect_def Let_def
             split: if_splits option.splits)
next
  case False
  with assms show ?thesis
    by (cases v; cases rt)
       (auto simp: server_defs v1_defs v2_defs paymentsDb_get_def Let_def
             split: if_splits option.splits)
qed

theorem status_moves_along_implemented_edges_witness:
  "handle Server Create demo_env demo_sys
     (demo_create ''pay_u1'' (Str ''4111111111111111'') ''123'') (demo_db ''captured'')
     = (Response 200 (Obj [(''paymentId'', Str ''pay_u1''), (''status'', Str ''created''),
                           (''amount'', Num 10), (''currency'', Str ''USD''),
                           (''timestamp'', Str ''2024-01-01T10:00:00.000Z'')]),
        Clean ((demo_db ''captured'')(''pay_u1'' \<mapsto>
           (demo_payment ''captured'')\<lparr>status := ''created'', cardLast4 := Str ''1111'',
              updatedAt := Str ''2024-01-01T10:00:00.000Z''\<rparr>))) \<and>
   demo_db ''captured'' ''pay_u1'' = Some (demo_payment ''captured'') \<and>
   (\<exists>p'. ((demo_db ''captured'')(''pay_u1'' \<mapsto>
             (demo_payment ''captured'')\<lparr>status := ''created'', cardLast4 := Str ''1111'',
                updatedAt := Str ''2024-01-01T10:00:00.000Z''\<rparr>)) ''pay_u1'' = Some p' \<and>
         (status p' = status (demo_payment ''captured'') \<or>
          allowed Server Create
            (body_status (body (demo_create ''pay_u1'' (Str ''4111111111111111'') ''123'')))
            (status (demo_payment ''captured'')) (status p'))) \<and>
   body_status (body (demo_callback ''pay_u1'' ''failed'' None))
     \<in> set [''success'', ''failed'', ''canceled''] \<and>
   handle Variant2 Callback demo_env demo_sys (demo_callback ''pay_u1'' ''failed'' None)
     (demo_db ''captured'')
     = (Response 200
          (Obj [(''redirectUrl'', Str ''https://example.com/f&sig=secret|pay_u1,failed''),
                (''status'', Str ''callback_processed''),
                (''timestamp'', Str ''2024-01-01T10:00:00.001Z'')]),
        Clean ((demo_db ''captured'')(''pay_u1'' \<mapsto>
                 (demo_payment ''captured'')\<lparr>status := ''failed'',
                    updatedAt := Str ''2024-01-01T10:00:00.000Z''\<rparr>))) \<and>
   (\<exists>p'. ((demo_db ''captured'')(''pay_u1'' \<mapsto>
             (demo_payment ''captured'')\<lparr>status := ''failed'',
                updatedAt := Str ''2024-01-01T10:00:00.000Z''\<rparr>)) ''pay_u1'' = Some p' \<and>
         (status p' = status (demo_payment ''captured'') \<or>
          allowed Variant2 Callback (body_status (body (demo_callback ''pay_u1'' ''failed'' None)))
            (status (demo_payment ''captured'')) (status p')))"
proof -
  let ?cr = "demo_create ''pay_u1'' (Str ''4111111111111111'') ''123''"
  let ?cb = "demo_callback ''pay_u1'' ''failed'' None"
  have a: "handle Server Create demo_env demo_sys ?cr (demo_db ''captured'')
     = (Response 200 (Obj [(''paymentId'', Str ''pay_u1''), (''status'', Str ''created''),
                           (''amount'', Num 10), (''currency'', Str ''USD''),
                           (''timestamp'', Str ''2024-01-01T10:00:00.000Z'')]),
        Clean ((demo_db ''captured'')(''pay_u1'' \<mapsto>
           (demo_payment ''captured'')\<lparr>status := ''created'', cardLast4 := Str ''1111'',
              updatedAt := Str ''2024-01-01T10:00:00.000Z''\<rparr>)))"
    by (simp add: server_create_def check_defs lookup_defs demo_numbers_luhn demo_defs Let_def)
  have b: "demo_db ''captured'' ''pay_u1'' = Some (demo_payment ''captured'')"
    by (simp add: demo_db_def)
  have c: "Create = Redirect \<longrightarrow> demo_db ''captured'' (''pay_'' @ uuid_1 demo_sys) = None"
    by simp
  have c': "Create = Callback \<longrightarrow> body_status (body ?cr) \<in> set [''success'', ''failed'', ''canceled'']"
    by simp
  note d = status_moves_along_implemented_edges [OF a c c' b]
  have f: "body_status (body ?cb) \<in> set [''success'', ''failed'', ''canceled'']"
    by (simp add: demo_callback_def blank_body_def)
  have f1: "handle Variant2 Callback demo_env demo_sys ?cb (demo_db ''captured'')
     = (Response 200
          (Obj [(''redirectUrl'', Str ''https://example.com/f&sig=secret|pay_u1,failed''),
                (''status'', Str ''callback_processed''),
                (''timestamp'', Str ''2024-01-01T10:00:00.001Z'')]),
        Clean ((demo_db ''captured'')(''pay_u1'' \<mapsto>
                 (demo_payment ''captured'')\<lparr>status := ''failed'',
                    updatedAt := Str ''2024-01-01T10:00:00.000Z''\<rparr>)))"
    by (simp add: v2_callback_def check_defs lookup_defs demo_defs Let_def)
  have f2: "Callback = Redirect \<longrightarrow> demo_db ''captured'' (''pay_'' @ uuid_1 demo_sys) = None"
    by simp
  have f3: "Callback = Callback \<longrightarrow>
      body_status (body ?cb) \<in> set [''success'', ''failed'', ''canceled'']"
    using f by (rule impI)
  note g = status_moves_along_implemented_edges [OF f1 f2 f3 b]
  show ?thesis
    by (rule conjI [OF a conjI [OF b conjI [OF d conjI [OF f conjI [OF f1 g]]]]])
qed

section \<open>Unknown payment identifiers (C3)\<close>




section \<open>Capture under the strict guard (C4)\<close>

text \<open>
  C4. In the servers that guard capture (\<open>server.js\<close> and variant 2), for every existing
  record and every capture request that reaches the handler: when the status is not
  \<open>created\<close> (so also when it is \<open>pending\<close>) the answer is 400 and the store is unchanged;
  when the status is \<open>created\<close> the answer is 200 and the record gets status \<open>captured\<close>,
  the request's amount as \<open>capturedAmount\<close>, and a new \<open>updatedAt\<close>.
\<close>

theorem capture_strict_guard:
  assumes "v = Server \<or> v = Variant2"
    and "reaches_lookup v Capture e r"
    and "db (body_paymentId (body r)) = Some p"
  shows "(status p \<noteq> ''created'' \<longrightarrow>
            handle v Capture e s r db
              = (Response 400 (ErrorBody ''Payment not in creatable state''), Clean db)) \<and>
         (status p = ''created'' \<longrightarrow>
            (\<exists>res. handle v Capture e s r db
              = (Response 200 (Obj res),
                 Clean (db(body_paymentId (body r) \<mapsto>
                      p\<lparr>status := ''captured'', capturedAmount := body_amount (body r),
                        updatedAt := Str (date_1 s)\<rparr>)))))"
  using assms
  by (auto simp: server_capture_def v2_capture_def paymentsDb_get_own Let_def)

theorem capture_strict_guard_witness:
  "reaches_lookup Server Capture demo_env (demo_op ''pay_u1'') \<and>
   demo_db ''pending'' (body_paymentId (body (demo_op ''pay_u1'')))
     = Some (demo_payment ''pending'') \<and>
   handle Server Capture demo_env demo_sys (demo_op ''pay_u1'') (demo_db ''pending'')
     = (Response 400 (ErrorBody ''Payment not in creatable state''),
        Clean (demo_db ''pending'')) \<and>
   demo_db ''created'' (body_paymentId (body (demo_op ''pay_u1'')))
     = Some (demo_payment ''created'') \<and>
   (\<exists>res. handle Server Capture demo_env demo_sys (demo_op ''pay_u1'') (demo_db ''created'')
      = (Response 200 (Obj res),
         Clean ((demo_db ''created'')(''pay_u1'' \<mapsto>
            (demo_payment ''created'')\<lparr>status := ''captured'', capturedAmount := Num 10,
               updatedAt := Str ''2024-01-01T10:00:00.000Z''\<rparr>))))"
proof -
  let ?r = "demo_op ''pay_u1''"
  have a: "reaches_lookup Server Capture demo_env ?r"
    by (simp add: authenticate_def demo_defs)
  have b: "demo_db ''pending'' (body_paymentId (body ?r)) = Some (demo_payment ''pending'')"
    and b': "demo_db ''created'' (body_paymentId (body ?r)) = Some (demo_payment ''created'')"
    by (simp_all add: demo_defs)
  have c: "status (demo_payment ''pending'') \<noteq> ''created''"
    "status (demo_payment ''created'') = ''created''"
    by (simp_all add: demo_defs)
  have d: "body_paymentId (body ?r) = ''pay_u1''" "body_amount (body ?r) = Num 10"
    "date_1 demo_sys = ''2024-01-01T10:00:00.000Z''"
    by (simp_all add: demo_defs)
  from capture_strict_guard [where v = Server and e = demo_env and r = ?r
      and db = "demo_db ''pending''" and p = "demo_payment ''pending''" and s = demo_sys]
    capture_strict_guard [where v = Server and e = demo_env and r = ?r
      and db = "demo_db ''created''" and p = "demo_payment ''created''" and s = demo_sys]
    a b b' c d
  show ?thesis by simp
qed

section \<open>Refund (C5)\<close>

text \<open>
  C5, as stated, fails: the refund route of variant 1 has no status guard. It refunds the
  record that a redirect has just stored, whose status is \<open>pending\<close>.
\<close>

theorem refund_pending_counterexample:
  "snd (handle Variant1 Redirect demo_env demo_sys demo_redirect Map.empty)
     = Clean (demo_db ''pending'') \<and>
   status_at (Clean (demo_db ''pending'')) ''pay_u1'' = Some ''pending'' \<and>
   fst (handle Variant1 Refund demo_env demo_sys (demo_op ''pay_u1'') (demo_db ''pending''))
     = Response 200 (Obj [(''refundId'', Str ''ref_u1''), (''status'', Str ''refunded''),
                          (''amount'', Num 10),
                          (''timestamp'', Str ''2024-01-01T10:00:00.000Z'')]) \<and>
   status_at
     (snd (handle Variant1 Refund demo_env demo_sys (demo_op ''pay_u1'') (demo_db ''pending'')))
     ''pay_u1''
     = Some ''refunded''"
  by (simp add: v1_redirect_def v1_refund_def check_defs lookup_defs demo_defs Let_def)

text \<open>
  C5, amended. For every existing record and every refund request that reaches the
  handler: in \<open>server.js\<close> and variant 2 the refund succeeds if and only if the status is
  \<open>captured\<close>; then the record gets status \<open>refunded\<close>, the request's amount as
  \<open>refundedAmount\<close> (and, in variant 2, the reason), and a new \<open>updatedAt\<close>; for every other
  status (\<open>canceled\<close> and \<open>pending\<close> among them) the answer is 400 and the store is
  unchanged. In variant 1 the refund succeeds from every status.
\<close>

theorem refund_guard:
  assumes "reaches_lookup v Refund e r"
    and "db (body_paymentId (body r)) = Some p"
  shows "(v \<noteq> Variant1 \<and> status p \<noteq> ''captured'' \<longrightarrow>
            (\<exists>msg. handle v Refund e s r db = (Response 400 (ErrorBody msg), Clean db))) \<and>
         (v = Variant1 \<or> status p = ''captured'' \<longrightarrow>
            (\<exists>res. handle v Refund e s r db
              = (Response 200 (Obj res),
                 Clean (db(body_paymentId (body r) \<mapsto>
                      p\<lparr>status := ''refunded'', refundedAmount := body_amount (body r),
                        refundReason := (if v = Variant2 then body_reason (body r)
                                         else refundReason p),
                        updatedAt := Str (date_1 s)\<rparr>)))))"
  using assms
  by (cases v)
     (auto simp: server_refund_def v1_refund_def v2_refund_def paymentsDb_get_own Let_def)

theorem refund_guard_witness:
  "reaches_lookup Server Refund demo_env (demo_op ''pay_u1'') \<and>
   demo_db ''canceled'' (body_paymentId (body (demo_op ''pay_u1'')))
     = Some (demo_payment ''canceled'') \<and>
   (\<exists>msg. handle Server Refund demo_env demo_sys (demo_op ''pay_u1'') (demo_db ''canceled'')
      = (Response 400 (ErrorBody msg), Clean (demo_db ''canceled''))) \<and>
   demo_db ''captured'' (body_paymentId (body (demo_op ''pay_u1'')))
     = Some (demo_payment ''captured'') \<and>
   (\<exists>res. handle Server Refund demo_env demo_sys (demo_op ''pay_u1'') (demo_db ''captured'')
      = (Response 200 (Obj res),
         Clean ((demo_db ''captured'')(''pay_u1'' \<mapsto>
            (demo_payment ''captured'')\<lparr>status := ''refunded'', refundedAmount := Num 10,
               refundReason := refundReason (demo_payment ''captured''),
               updatedAt := Str ''2024-01-01T10:00:00.000Z''\<rparr>))))"
proof -
  let ?r = "demo_op ''pay_u1''"
  have a: "reaches_lookup Server Refund demo_env ?r"
    by (simp add: authenticate_def demo_defs)
  have b: "demo_db ''canceled'' (body_paymentId (body ?r)) = Some (demo_payment ''canceled'')"
    and b': "demo_db ''captured'' (body_paymentId (body ?r)) = Some (demo_payment ''captured'')"
    by (simp_all add: demo_defs)
  have c: "status (demo_payment ''canceled'') \<noteq> ''captured''"
    "status (demo_payment ''captured'') = ''captured''"
    by (simp_all add: demo_defs)
  have d: "body_paymentId (body ?r) = ''pay_u1''" "body_amount (body ?r) = Num 10"
    "date_1 demo_sys = ''2024-01-01T10:00:00.000Z''"
    by (simp_all add: demo_defs)
  from refund_guard [where v = Server and db = "demo_db ''canceled''" and r = ?r
      and p = "demo_payment ''canceled''" and e = demo_env and s = demo_sys]
    refund_guard [where v = Server and db = "demo_db ''captured''" and r = ?r
      and p = "demo_payment ''captured''" and e = demo_env and s = demo_sys]
    a b b' c d
  show ?thesis by simp
qed

section \<open>Cancel (C6)\<close>

text \<open>
  C6. In all three servers, for every existing record and every cancel request that
  reaches the handler: when the status is \<open>pending\<close> or \<open>created\<close> the answer is 200 and the
  record gets status \<open>canceled\<close> (in variant 2 also the reason) and a new \<open>updatedAt\<close>; for
  every other status the answer is 400 and the store is unchanged.
\<close>

theorem cancel_guard:
  assumes "reaches_lookup v Cancel e r"
    and "db (body_paymentId (body r)) = Some p"
  shows "(status p = ''pending'' \<or> status p = ''created'' \<longrightarrow>
            (\<exists>res. handle v Cancel e s r db
              = (Response 200 (Obj res),
                 Clean (db(body_paymentId (body r) \<mapsto>
                      p\<lparr>status := ''canceled'',
                        cancelReason := (if v = Variant2 then body_reason (body r)
                                         else cancelReason p),
                        updatedAt := Str (date_1 s)\<rparr>))))) \<and>
         (status p \<noteq> ''pending'' \<and> status p \<noteq> ''created'' \<longrightarrow>
            (\<exists>msg. handle v Cancel e s r db = (Response 400 (ErrorBody msg), Clean db)))"
  using assms
  by (cases v)
     (auto simp: server_cancel_def v1_cancel_def v2_cancel_def paymentsDb_get_own Let_def)

theorem cancel_guard_witness:
  "reaches_lookup Server Cancel demo_env (demo_op ''pay_u1'') \<and>
   demo_db ''captured'' (body_paymentId (body (demo_op ''pay_u1'')))
     = Some (demo_payment ''captured'') \<and>
   (\<exists>msg. handle Server Cancel demo_env demo_sys (demo_op ''pay_u1'') (demo_db ''captured'')
      = (Response 400 (ErrorBody msg), Clean (demo_db ''captured''))) \<and>
   demo_db ''pending'' (body_paymentId (body (demo_op ''pay_u1'')))
     = Some (demo_payment ''pending'') \<and>
   (\<exists>res. handle Server Cancel demo_env demo_sys (demo_op ''pay_u1'') (demo_db ''pending'')
      = (Response 200 (Obj res),
         Clean ((demo_db ''pending'')(''pay_u1'' \<mapsto>
            (demo_payment ''pending'')\<lparr>status := ''canceled'',
               updatedAt := Str ''2024-01-01T10:00:00.000Z''\<rparr>))))"
proof -
  let ?r = "demo_op ''pay_u1''"
  have a: "reaches_lookup Server Cancel demo_env ?r"
    by (simp add: authenticate_def demo_defs)
  have b: "demo_db ''captured'' (body_paymentId (body ?r)) = Some (demo_payment ''captured'')"
    and b': "demo_db ''pending'' (body_paymentId (body ?r)) = Some (demo_payment ''pending'')"
    by (simp_all add: demo_defs)
  have c: "status (demo_payment ''captured'') \<noteq> ''pending''"
    "status (demo_payment ''captured'') \<noteq> ''created''"
    "status (demo_payment ''pending'') = ''pending''"
    by (simp_all add: demo_defs)
  have d: "body_paymentId (body ?r) = ''pay_u1''"
    "date_1 demo_sys = ''2024-01-01T10:00:00.000Z''"
    by (simp_all add: demo_defs)
  from cancel_guard [where v = Server and db = "demo_db ''captured''" and r = ?r
      and p = "demo_payment ''captured''" and e = demo_env and s = demo_sys]
    cancel_guard [where v = Server and db = "demo_db ''pending''" and r = ?r
      and p = "demo_payment ''pending''" and e = demo_env and s = demo_sys]
    a b b' c d
  show ?thesis by simp
qed

section \<open>Redirect\<close>

text \<open>
  What the redirect handlers do with the store. An accepted redirect call
  (\<open>server.js\<close> and variant 1: authenticated and valid; variant 2: order identifier,
  amount, currency and callback URLs present) is answered 200, and a record with status
  \<open>pending\<close> and the request's order identifier, amount and callback URLs is assigned to
  the key \<open>pay_\<close> followed by the value of \<open>uuidv4()\<close>; no other key is written. The
  handlers do not look the key up first: whether it is new (the subject of C7) depends on
  the random generator alone, whose result is an input here.
\<close>

lemma redirect_stores_pending:
  assumes "redirect_accepted v e r"
  shows "\<exists>res cur. handle v Redirect e s r db
           = (Response 200 (Obj res),
              Clean (db(''pay_'' @ uuid_1 s \<mapsto>
                       new_payment (''pay_'' @ uuid_1 s) (body r) cur (date_1 s))))"
  using assms
  by (cases v) (auto simp: server_redirect_def v1_redirect_def v2_redirect_def Let_def)

lemma new_payment_pending:
  "status (new_payment pid b cur t) = ''pending'' \<and> paymentId (new_payment pid b cur t) = Str pid \<and>
   orderId (new_payment pid b cur t) = body_orderId b \<and>
   amount (new_payment pid b cur t) = body_amount b \<and>
   callbackUrls (new_payment pid b cur t) = body_callbackUrls b"
  by (simp add: new_payment_def)

section \<open>Card data kept by create (C8)\<close>




section \<open>The callback URL is looked up under the status (C9)\<close>

text \<open>
  C9. In \<open>server.js\<close> and variant 1, for every record whose \<open>callbackUrls\<close> has exactly the
  keys \<open>success\<close>, \<open>failure\<close> and \<open>cancel\<close>, and every correctly signed callback with status
  \<open>success\<close>, \<open>failed\<close> or \<open>canceled\<close>: the handler looks the URL up under the status itself.
  For \<open>failed\<close> and \<open>canceled\<close> that key is absent, and the answer's \<open>redirectUrl\<close> is the
  text \<open>undefined&sig=...\<close> (\<open>server.js\<close>) or \<open>null\<close> (variant 1): it is not built from the
  stored failure or cancel URL. Only \<open>success\<close> finds a URL.
\<close>

theorem callback_status_key_misses_urls:
  assumes "v = Server \<or> v = Variant1"
    and "db (body_paymentId (body r)) = Some p"
    and "callbackUrls p = Some urls"
    and "dom urls = {''success'', ''failure'', ''cancel''}"
    and "generateSignature e (WholeBody (body r)) = Some sg"
    and "x_signature (headers r) = Some sg"
    and "body_status (body r) = ''success'' \<or> body_status (body r) = ''failed'' \<or>
         body_status (body r) = ''canceled''"
  shows "\<exists>sg'. generateSignature e
                 (PaymentStatus (body_paymentId (body r)) (body_status (body r))) = Some sg' \<and>
          (body_status (body r) \<noteq> ''success'' \<longrightarrow>
             urls (body_status (body r)) = None \<and>
             fst (handle v Callback e s r db)
               = Response 200
                   (Obj (if v = Server
                         then [(''redirectUrl'', Str (''undefined&sig='' @ sg')),
                               (''status'', Str ''callback_processed'')]
                         else [(''status'', Str ''callback_processed''),
                               (''redirectUrl'', Null)]))) \<and>
          (body_status (body r) = ''success'' \<longrightarrow>
             (\<exists>u. urls ''success'' = Some u \<and>
                  fst (handle v Callback e s r db)
                    = Response 200
                        (Obj (if v = Server
                              then [(''redirectUrl'', Str (u @ ''&sig='' @ sg')),
                                    (''status'', Str ''callback_processed'')]
                              else [(''status'', Str ''callback_processed''),
                                    (''redirectUrl'',
                                       if u = [] then Null
                                       else Str (u @ ''&sig='' @ sg'))]))))"
proof -
  from assms(4) have "''failed'' \<notin> dom urls" and "''canceled'' \<notin> dom urls"
    by simp_all
  then have miss: "urls ''failed'' = None" "urls ''canceled'' = None"
    by (simp_all add: domIff)
  from assms(4) have "''success'' \<in> dom urls"
    by simp
  then obtain u where hit: "urls ''success'' = Some u"
    by (auto simp: domIff)
  from assms(5) obtain k where key: "HMAC_SECRET e = Some k"
    by (auto simp: generateSignature_def split: option.splits)
  from miss hit have get: "callbackUrls_get e urls ''failed'' = None"
    "callbackUrls_get e urls ''canceled'' = None"
    "callbackUrls_get e urls ''success'' = Some u"
    "\<not> callbackUrls_truthy urls ''failed''" "\<not> callbackUrls_truthy urls ''canceled''"
    "callbackUrls_truthy urls ''success'' = (u \<noteq> [])"
    by (simp_all add: callbackUrls_get_def callbackUrls_truthy_def status_names_not_inherited)
  from assms(1) show ?thesis
  proof
    assume "v = Server"
    with assms(2,3,5,6,7) miss hit key get show ?thesis
      by (auto simp: server_callback_def generateSignature_def paymentsDb_get_own Let_def)
  next
    assume "v = Variant1"
    with assms(2,3,5,6,7) miss hit key get show ?thesis
      by (auto simp: v1_callback_def generateSignature_def paymentsDb_get_own Let_def)
  qed
qed

theorem callback_status_key_misses_urls_witness:
  "demo_db ''created'' (body_paymentId (body (demo_callback ''pay_u1'' ''failed''
       (Some ''secret|pay_u1,failed'')))) = Some (demo_payment ''created'') \<and>
   callbackUrls (demo_payment ''created'') = Some demo_urls \<and>
   dom demo_urls = {''success'', ''failure'', ''cancel''} \<and>
   demo_urls ''failed'' = None \<and>
   fst (handle Server Callback demo_env demo_sys
          (demo_callback ''pay_u1'' ''failed'' (Some ''secret|pay_u1,failed''))
          (demo_db ''created''))
     = Response 200 (Obj [(''redirectUrl'', Str ''undefined&sig=secret|pay_u1,failed''),
                          (''status'', Str ''callback_processed'')])"
proof -
  let ?r = "demo_callback ''pay_u1'' ''failed'' (Some ''secret|pay_u1,failed'')"
  have a: "demo_db ''created'' (body_paymentId (body ?r)) = Some (demo_payment ''created'')"
    by (simp add: demo_defs)
  have b: "callbackUrls (demo_payment ''created'') = Some demo_urls"
    by (simp add: demo_defs)
  have c: "dom demo_urls = {''success'', ''failure'', ''cancel''}"
    by (auto simp: demo_urls_def)
  have d: "generateSignature demo_env (WholeBody (body ?r)) = Some ''secret|pay_u1,failed''"
    by (simp add: generateSignature_def demo_defs)
  have f: "x_signature (headers ?r) = Some ''secret|pay_u1,failed''"
    by (simp add: demo_defs)
  have g: "body_status (body ?r) = ''failed''"
    by (simp add: demo_defs)
  have h: "generateSignature demo_env
             (PaymentStatus (body_paymentId (body ?r)) (body_status (body ?r)))
           = Some ''secret|pay_u1,failed''"
    by (simp add: generateSignature_def demo_defs)
  from callback_status_key_misses_urls [where v = Server and db = "demo_db ''created''"
      and r = ?r and p = "demo_payment ''created''" and urls = demo_urls and e = demo_env
      and sg = "''secret|pay_u1,failed''" and s = demo_sys] a b c d f g h
  have "demo_urls ''failed'' = None \<and>
        fst (handle Server Callback demo_env demo_sys ?r (demo_db ''created''))
          = Response 200 (Obj [(''redirectUrl'', Str ''undefined&sig=secret|pay_u1,failed''),
                               (''status'', Str ''callback_processed'')])"
    by simp
  with a b c show ?thesis
    by blast
qed

text \<open>Variant 2 differs: its \<open>switch\<close> reads \<open>callbackUrls.failure\<close> for \<open>failed\<close>.\<close>

lemma v2_callback_reads_failure_url:
  assumes "db (body_paymentId (body r)) = Some p"
    and "callbackUrls p = Some urls"
    and "body_status (body r) = ''failed''"
  shows "fst (v2_callback e s r db)
           = Response 200
               (Obj [(''redirectUrl'',
                        Str (template (urls ''failure'') @ ''&sig='' @
                             v2_generateSignature e
                               (PaymentStatus (body_paymentId (body r)) ''failed''))),
                     (''status'', Str ''callback_processed''),
                     (''timestamp'', Str (date_2 s))])"
  using assms
  by (simp add: v2_callback_def paymentsDb_get_own Let_def)

section \<open>The callback looks the record up before it checks the signature (C10)\<close>

text \<open>
  In all three servers a callback for a \<open>paymentId\<close> that is neither in the store nor a
  name inherited from \<open>Object.prototype\<close> is answered 404, whatever the \<open>x-signature\<close>
  header is. In \<open>server.js\<close> and variant 1 a callback for an existing record with a wrong
  signature is answered 403.
\<close>

lemma callback_lookup_before_signature:
  "(db (body_paymentId (body r)) = None \<and> body_paymentId (body r) \<notin> set inherited_names \<longrightarrow>
      handle v Callback e s r db = (Response 404 (ErrorBody ''Payment not found''), Clean db)) \<and>
   ((v = Server \<or> v = Variant1) \<and> db (body_paymentId (body r)) = Some p \<and>
    generateSignature e (WholeBody (body r)) = Some sg \<and> x_signature (headers r) \<noteq> Some sg \<longrightarrow>
      handle v Callback e s r db = (Response 403 (ErrorBody ''Invalid signature''), Clean db))"
  by (cases v)
     (auto simp: server_callback_def v1_callback_def v2_callback_def response_defs
           paymentsDb_get_own paymentsDb_get_absent Let_def)

text \<open>
  C10 fails at the identifiers that \<open>paymentsDb\<close> inherits. \<open>constructor\<close> is in no store,
  yet \<open>paymentsDb['constructor']\<close> is the built-in function \<open>Object\<close> and passes the
  existence check: \<open>server.js\<close> and variant 1 go on to the signature check and answer a
  callback without a signature with 403, the answer of an existing payment, where the
  claim says 404.
\<close>

theorem callback_inherited_name_answered_403:
  "(Map.empty :: paymentsDb) ''constructor'' = None \<and>
   handle Server Callback demo_env demo_sys (demo_callback ''constructor'' ''success'' None)
     Map.empty
     = (Response 403 (ErrorBody ''Invalid signature''), Clean Map.empty) \<and>
   handle Variant1 Callback demo_env demo_sys (demo_callback ''constructor'' ''success'' None)
     Map.empty
     = (Response 403 (ErrorBody ''Invalid signature''), Clean Map.empty) \<and>
   handle Server Callback demo_env demo_sys (demo_callback ''pay_u1'' ''success'' None)
     Map.empty
     = (Response 404 (ErrorBody ''Payment not found''), Clean Map.empty)"
  by (simp add: server_callback_def v1_callback_def check_defs response_defs lookup_defs
        inherited_names_def demo_defs Let_def)

end
